theory Spec2Isabelle
  imports Main "HOL-Library.Word"
begin

unbundle bit_operations_syntax

section \<open>The heat logger of jam.go\<close>

text \<open>
  A shallow embedding of \<^verbatim>\<open>src/jam.go\<close>. Go strings and byte slices are lists of
  8-bit characters. Go's \<^verbatim>\<open>int\<close> is taken at its 64-bit width (as on amd64 and
  arm64) and \<^verbatim>\<open>int64\<close> is a 64-bit word as well; \<^verbatim>\<open>+\<close> wraps and the
  comparisons are the signed ones. The mutex \<^verbatim>\<open>mu\<close> is left out: the model is
  sequential, every method runs from its lock to its unlock without interleaving.
\<close>

type_synonym go_int = "64 word"
type_synonym int64 = "64 word"

subsection \<open>Constants\<close>

definition esc :: char where
  "esc = CHR 0x1B"

definition newline :: char where
  "newline = CHR 0x0A"

definition reset :: string where
  "reset = esc # ''[0m''"

definition yellow :: string where
  "yellow = esc # ''[1;33m''"

definition red :: string where
  "red = esc # ''[1;31m''"

definition announcement :: string where
  "announcement = esc # ''[1;32m''"

text \<open>
  The heat states share one \<^verbatim>\<open>const\<close> block with the four escape strings, so
  \<^verbatim>\<open>iota\<close> is 4 at \<^verbatim>\<open>cold\<close>.
\<close>

definition cold :: go_int where
  "cold = 4"

definition coolingDown :: go_int where
  "coolingDown = 5"

definition heatingUp :: go_int where
  "heatingUp = 6"

definition onFire :: go_int where
  "onFire = 7"

text \<open>The three banner texts of \<^verbatim>\<open>updateHeat\<close>.\<close>

definition msgHeatingUp :: string where
  "msgHeatingUp = ''It'' @ [CHR 0x27] @ ''s heating up!!! ''"

definition msgOnFire :: string where
  "msgOnFire = ''It'' @ [CHR 0x27] @ ''s on fire!!! ''"

definition msgBlazing :: string where
  "msgBlazing = ''Boomshakalaka!!! ''"

subsection \<open>Colour transforms\<close>

definition blazing :: "string \<Rightarrow> string" where
  "blazing txt = red @ txt @ reset"

definition heating :: "string \<Rightarrow> string" where
  "heating txt = yellow @ txt @ reset"

definition announce :: "string \<Rightarrow> string" where
  "announce a = announcement @ a @ reset"

text \<open>
  The loop of \<^verbatim>\<open>fire\<close>: \<^verbatim>\<open>for i, c := range txt\<close>, with the index
  carried along and tested as \<^verbatim>\<open>uint64(i)&1 == 0\<close>.
\<close>

fun fire_loop :: "nat \<Rightarrow> string \<Rightarrow> string" where
  "fire_loop i [] = []"
| "fire_loop i (c # cs) =
     (if (word_of_nat i :: 64 word) AND 1 = 0 then red else yellow) @ [c] @ fire_loop (Suc i) cs"

definition fire :: "string \<Rightarrow> string" where
  "fire txt = fire_loop 0 txt @ reset"

subsection \<open>The destination\<close>

text \<open>
  An \<^verbatim>\<open>io.Writer\<close> is an interface value: some data of the implementing type and
  its \<^verbatim>\<open>Write\<close> method, which may change that data and returns the number of
  bytes written and an error (\<open>None\<close> is \<^verbatim>\<open>nil\<close>).
\<close>

datatype error = Error string

record 'w Writer =
  sink :: 'w
  Write :: "'w \<Rightarrow> string \<Rightarrow> 'w \<times> int \<times> error option"

definition write_to :: "'w Writer \<Rightarrow> string \<Rightarrow> 'w Writer \<times> int \<times> error option" where
  "write_to w p = (case Write w (sink w) p of (d, n, e) \<Rightarrow> (w\<lparr>sink := d\<rparr>, n, e))"

text \<open>\<^verbatim>\<open>time.Time\<close>, of which the logger only reads \<^verbatim>\<open>Unix()\<close>.\<close>

record Time =
  unixSec :: int64
  nsec :: "32 word"

definition Unix :: "Time \<Rightarrow> int64" where
  "Unix t = unixSec t"

subsection \<open>The logger\<close>

text \<open>
  The fields of \<^verbatim>\<open>Logger\<close>; \<^verbatim>\<open>term\<close> is \<open>term_mode\<close> and \<^verbatim>\<open>announce\<close> is
  \<open>announce_msg\<close> here. A \<^verbatim>\<open>nil\<close> transform is \<open>None\<close>.
\<close>

record 'w Logger =
  prefix :: string
  term_mode :: bool
  out :: "'w Writer"
  buf :: string
  state :: go_int
  period :: int64
  firePeriod :: int64
  rate :: go_int
  rateHeatingUp :: go_int
  rateOnFire :: go_int
  periodsBlazing :: int64
  announce_msg :: string
  heat :: "(string \<Rightarrow> string) option"

definition New :: "'w Writer \<Rightarrow> string \<Rightarrow> 'w Logger" where
  "New w p = \<lparr>prefix = p, term_mode = True, out = w, buf = [], state = cold,
     period = 0, firePeriod = 0, rate = 0, rateHeatingUp = 10, rateOnFire = 20,
     periodsBlazing = 5, announce_msg = [], heat = None\<rparr>"

definition SetOutput :: "'w Logger \<Rightarrow> 'w Writer \<Rightarrow> 'w Logger" where
  "SetOutput l w = l\<lparr>out := w\<rparr>"

definition SetHeatingUp :: "'w Logger \<Rightarrow> go_int \<Rightarrow> 'w Logger" where
  "SetHeatingUp l hup = l\<lparr>rateHeatingUp := hup\<rparr>"

definition SetOnFire :: "'w Logger \<Rightarrow> go_int \<Rightarrow> 'w Logger" where
  "SetOnFire l f = l\<lparr>rateOnFire := f\<rparr>"

definition SetBlazing :: "'w Logger \<Rightarrow> go_int \<Rightarrow> 'w Logger" where
  "SetBlazing l b = l\<lparr>periodsBlazing := scast b\<rparr>"

definition Prefix :: "'w Logger \<Rightarrow> string" where
  "Prefix l = prefix l"

definition SetPrefix :: "'w Logger \<Rightarrow> string \<Rightarrow> 'w Logger" where
  "SetPrefix l p = l\<lparr>prefix := p\<rparr>"

definition Writer :: "'w Logger \<Rightarrow> 'w Writer" where
  "Writer l = out l"

text \<open>
  \<^verbatim>\<open>updateHeat\<close>: the count goes up, a call within the second already being counted
  returns at once, any other call runs the \<^verbatim>\<open>switch\<close> and clears the count. The
  \<^verbatim>\<open>break\<close> of the \<^verbatim>\<open>onFire\<close> case leaves the \<^verbatim>\<open>switch\<close> only, so the count is
  cleared there too. A state outside the four constants matches no case.
\<close>

definition updateHeat :: "'w Logger \<Rightarrow> Time \<Rightarrow> 'w Logger" where
  "updateHeat l0 now =
    (let l1 = l0\<lparr>rate := rate l0 + 1\<rparr>;
         p = Unix now
     in if period l1 = p then l1
        else
          let l2 = l1\<lparr>period := p\<rparr>;
              l3 =
               (if state l2 = cold then
                  (let l = l2\<lparr>heat := None\<rparr>
                   in if rateHeatingUp l <s rate l
                      then l\<lparr>announce_msg := msgHeatingUp, state := heatingUp,
                             heat := Some heating\<rparr>
                      else l)
                else if state l2 = coolingDown then
                  (if rateHeatingUp l2 <s rate l2
                   then l2\<lparr>heat := Some heating, state := heatingUp\<rparr>
                   else if rate l2 <s rateHeatingUp l2
                   then l2\<lparr>heat := None, state := cold\<rparr>
                   else l2)
                else if state l2 = heatingUp then
                  (let l = l2\<lparr>heat := Some heating\<rparr>
                   in if rateOnFire l <s rate l
                      then l\<lparr>announce_msg := msgOnFire, state := onFire,
                             firePeriod := p, heat := Some fire\<rparr>
                      else l)
                else if state l2 = onFire then
                  (let l = l2\<lparr>heat := Some fire\<rparr>
                   in if rate l <s rateOnFire l
                      then l\<lparr>state := coolingDown, heat := Some heating\<rparr>
                      else if firePeriod l + periodsBlazing l <s p
                      then l\<lparr>announce_msg := msgBlazing, heat := Some blazing\<rparr>
                      else l)
                else l2)
          in l3\<lparr>rate := 0\<rparr>)"

text \<open>
  \<^verbatim>\<open>Output\<close>, with the reading of the clock (\<^verbatim>\<open>time.Now()\<close>) as the argument
  \<open>now\<close>. The result is the logger after the call and the error returned.
\<close>

definition Output :: "'w Logger \<Rightarrow> Time \<Rightarrow> string \<Rightarrow> 'w Logger \<times> error option" where
  "Output l0 now s =
    (let l1 = l0\<lparr>buf := []\<rparr>;
         l2 = updateHeat l1 now;
         l3 = (if announce_msg l2 \<noteq> []
               then l2\<lparr>buf := buf l2 @ announce (announce_msg l2), announce_msg := []\<rparr>
               else l2);
         nl = (length s = 0 \<or> s ! (length s - 1) \<noteq> newline);
         l4 = (case heat l3 of
                 Some h \<Rightarrow>
                   if term_mode l3 then l3\<lparr>buf := buf l3 @ h s\<rparr>
                   else l3\<lparr>buf := buf l3 @ s\<rparr>
               | None \<Rightarrow> l3\<lparr>buf := buf l3 @ s\<rparr>);
         l5 = (if nl then l4\<lparr>buf := buf l4 @ [newline]\<rparr> else l4)
     in case write_to (out l5) (buf l5) of
          (w, n, err) \<Rightarrow> (l5\<lparr>out := w\<rparr>, err))"

subsection \<open>The buffer of one call\<close>

text \<open>
  The three pieces \<^verbatim>\<open>Output\<close> appends to the cleared buffer, as functions of the
  logger \<open>u\<close> that \<^verbatim>\<open>updateHeat\<close> leaves: the banner in its colour, the message
  with or without its transform, and the newline. That \<open>Output\<close> writes exactly their
  concatenation is lemma \<open>Output_eq\<close> below.
\<close>

definition banner_part :: "'w Logger \<Rightarrow> string" where
  "banner_part u = (if announce_msg u = [] then [] else announce (announce_msg u))"

definition message_part :: "'w Logger \<Rightarrow> string \<Rightarrow> string" where
  "message_part u s = (case heat u of Some h \<Rightarrow> if term_mode u then h s else s | None \<Rightarrow> s)"

definition newline_part :: "string \<Rightarrow> string" where
  "newline_part s = (if s \<noteq> [] \<and> last s = newline then [] else [newline])"

subsection \<open>Sequences of public calls\<close>

text \<open>
  The exported methods of \<^verbatim>\<open>Logger\<close>. \<^verbatim>\<open>Printf\<close>, \<^verbatim>\<open>Print\<close>,
  \<^verbatim>\<open>Println\<close> and the \<^verbatim>\<open>Fatal\<close> and \<^verbatim>\<open>Panic\<close> families format their
  arguments and call \<^verbatim>\<open>Output\<close> on the text, dropping its error, so on the logger
  they are \<open>OpOutput\<close> with the formatted text; the getters leave the logger as it is.
\<close>

datatype 'w op =
    OpSetOutput "'w Writer"
  | OpSetHeatingUp go_int
  | OpSetOnFire go_int
  | OpSetBlazing go_int
  | OpOutput Time string
  | OpPrefix
  | OpSetPrefix string
  | OpWriter

fun step :: "'w Logger \<Rightarrow> 'w op \<Rightarrow> 'w Logger" where
  "step l (OpSetOutput w) = SetOutput l w"
| "step l (OpSetHeatingUp h) = SetHeatingUp l h"
| "step l (OpSetOnFire f) = SetOnFire l f"
| "step l (OpSetBlazing b) = SetBlazing l b"
| "step l (OpOutput now s) = fst (Output l now s)"
| "step l OpPrefix = l"
| "step l (OpSetPrefix p) = SetPrefix l p"
| "step l OpWriter = l"

definition run :: "'w Logger \<Rightarrow> 'w op list \<Rightarrow> 'w Logger" where
  "run l ops = foldl step l ops"

subsection \<open>A recording destination and some loggers\<close>

text \<open>
  A destination that keeps every buffer it is handed, one entry for each call of
  \<^verbatim>\<open>Write\<close>, and answers with the error \<open>f\<close> chooses for that buffer.
\<close>

definition recorder :: "(string \<Rightarrow> error option) \<Rightarrow> string list \<Rightarrow> string list Writer" where
  "recorder f cs =
     \<lparr>sink = cs,
      Write = (\<lambda>d p. (d @ [p], (case f p of None \<Rightarrow> int (length p) | Some e \<Rightarrow> 0), f p))\<rparr>"

definition quiet :: "string list Writer" where
  "quiet = recorder (\<lambda>p. None) []"

definition at_second :: "int64 \<Rightarrow> Time" where
  "at_second n = \<lparr>unixSec = n, nsec = 0\<rparr>"

text \<open>
  A logger on fire since second 100 that has counted 25 lines in second 106, one that is
  heating up with 25 lines counted in second 99, and one as \<open>New\<close> makes it but with
  terminal mode off and a heating-up threshold of 0, which only code inside the package
  can build.
\<close>

definition hot_logger :: "string list Logger" where
  "hot_logger = (New quiet ''web'')\<lparr>state := onFire, period := 106, firePeriod := 100,
     rate := 25, heat := Some fire\<rparr>"

definition warm_logger :: "string list Logger" where
  "warm_logger = (New quiet ''web'')\<lparr>state := heatingUp, period := 99, rate := 25,
     heat := Some heating\<rparr>"

definition plain_logger :: "string list Logger" where
  "plain_logger = (New quiet ''web'')\<lparr>term_mode := False, rateHeatingUp := 0\<rparr>"


text \<open>
  Exported calls that heat a fresh logger up: the heating-up threshold set to 0, then
  one line in second 1.
\<close>

definition heated_ops :: "string list op list" where
  "heated_ops = [OpSetHeatingUp 0, OpOutput (at_second 1) ''x'']"

text \<open>
  A run through the exported methods only: all three thresholds set to 1, then two lines
  in each of the seconds 1 to 5 and one line in second 6.
\<close>

definition episode_ops :: "string list op list" where
  "episode_ops =
     [OpSetHeatingUp 1, OpSetOnFire 1, OpSetBlazing 1,
      OpOutput (at_second 1) ''x'', OpOutput (at_second 1) ''x'',
      OpOutput (at_second 2) ''x'', OpOutput (at_second 2) ''x'',
      OpOutput (at_second 3) ''x'', OpOutput (at_second 3) ''x'',
      OpOutput (at_second 4) ''x'', OpOutput (at_second 4) ''x'',
      OpOutput (at_second 5) ''x'', OpOutput (at_second 5) ''x'',
      OpOutput (at_second 6) ''x'']"


section \<open>Basic facts\<close>

lemma states_distinct [simp]:
  "cold \<noteq> coolingDown" "cold \<noteq> heatingUp" "cold \<noteq> onFire"
  "coolingDown \<noteq> cold" "coolingDown \<noteq> heatingUp" "coolingDown \<noteq> onFire"
  "heatingUp \<noteq> cold" "heatingUp \<noteq> coolingDown" "heatingUp \<noteq> onFire"
  "onFire \<noteq> cold" "onFire \<noteq> coolingDown" "onFire \<noteq> heatingUp"
  by (simp_all add: cold_def coolingDown_def heatingUp_def onFire_def)

lemma msg_nonempty [simp]: "msgBlazing \<noteq> []" "msgHeatingUp \<noteq> []" "msgOnFire \<noteq> []"
  by (simp_all add: msgBlazing_def msgHeatingUp_def msgOnFire_def)

lemmas scen = Unix_def at_second_def hot_logger_def warm_logger_def plain_logger_def New_def
  quiet_def recorder_def write_to_def

subsection \<open>What \<open>updateHeat\<close> leaves alone\<close>

lemma updateHeat_buf_update:
  "updateHeat (l\<lparr>buf := b\<rparr>) now = (updateHeat l now)\<lparr>buf := b\<rparr>"
  by (simp add: updateHeat_def Let_def)

lemma updateHeat_prefix_update:
  "updateHeat (l\<lparr>prefix := p\<rparr>) now = (updateHeat l now)\<lparr>prefix := p\<rparr>"
  by (simp add: updateHeat_def Let_def)

lemma updateHeat_out_update:
  "updateHeat (l\<lparr>out := w\<rparr>) now = (updateHeat l now)\<lparr>out := w\<rparr>"
  by (simp add: updateHeat_def Let_def)

lemma updateHeat_frame:
  "out (updateHeat l now) = out l" "buf (updateHeat l now) = buf l"
  "prefix (updateHeat l now) = prefix l" "term_mode (updateHeat l now) = term_mode l"
  "rateHeatingUp (updateHeat l now) = rateHeatingUp l"
  "rateOnFire (updateHeat l now) = rateOnFire l"
  "periodsBlazing (updateHeat l now) = periodsBlazing l"
  by (simp_all add: updateHeat_def Let_def)

subsection \<open>The cases of the \<open>onFire\<close> and \<open>heatingUp\<close> branches\<close>

lemma updateHeat_blazing:
  assumes "state l = onFire" "Unix now \<noteq> period l" "\<not> rate l + 1 <s rateOnFire l"
    "firePeriod l + periodsBlazing l <s Unix now"
  shows "updateHeat l now =
     l\<lparr>rate := 0, period := Unix now, announce_msg := msgBlazing, heat := Some blazing\<rparr>"
  using assms by (simp add: updateHeat_def Let_def)

lemma updateHeat_enter_fire:
  assumes "state l = heatingUp" "Unix now \<noteq> period l" "rateOnFire l <s rate l + 1"
  shows "updateHeat l now =
     l\<lparr>rate := 0, period := Unix now, announce_msg := msgOnFire, state := onFire,
       firePeriod := Unix now, heat := Some fire\<rparr>"
  using assms by (simp add: updateHeat_def Let_def)

lemma updateHeat_cool:
  assumes "state l = onFire" "Unix now \<noteq> period l" "rate l + 1 <s rateOnFire l"
  shows "updateHeat l now =
     l\<lparr>rate := 0, period := Unix now, state := coolingDown, heat := Some heating\<rparr>"
  using assms by (simp add: updateHeat_def Let_def)

lemma updateHeat_onFire_not_cold: "state l = onFire \<Longrightarrow> state (updateHeat l now) \<noteq> cold"
  by (simp add: updateHeat_def Let_def)

subsection \<open>The buffer \<open>Output\<close> writes\<close>

lemma parts_frame [simp]:
  "banner_part (u\<lparr>prefix := p\<rparr>) = banner_part u"
  "message_part (u\<lparr>prefix := p\<rparr>) s = message_part u s"
  "banner_part (u\<lparr>out := w\<rparr>) = banner_part u"
  "message_part (u\<lparr>out := w\<rparr>) s = message_part u s"
  by (simp_all add: banner_part_def message_part_def split: option.splits)

lemma Output_eq:
  "Output l now s =
    (let u = updateHeat l now;
         b = banner_part u @ message_part u s @ newline_part s;
         r = write_to (out l) b
     in (u\<lparr>buf := b, announce_msg := [], out := fst r\<rparr>, snd (snd r)))"
proof (cases "s = []")
  case True
  then show ?thesis
    by (simp add: Output_def Let_def updateHeat_buf_update updateHeat_frame banner_part_def
        message_part_def newline_part_def split: option.splits prod.splits)
next
  case False
  then show ?thesis
    by (simp add: Output_def Let_def updateHeat_buf_update updateHeat_frame banner_part_def
        message_part_def newline_part_def last_conv_nth split: option.splits prod.splits)
qed

lemma Output_buf:
  "buf (fst (Output l now s)) =
     banner_part (updateHeat l now) @ message_part (updateHeat l now) s @ newline_part s"
  by (simp add: Output_eq Let_def)

lemma Output_fields:
  "term_mode (fst (Output l now s)) = term_mode l"
  "state (fst (Output l now s)) = state (updateHeat l now)"
  "firePeriod (fst (Output l now s)) = firePeriod (updateHeat l now)"
  "heat (fst (Output l now s)) = heat (updateHeat l now)"
  "announce_msg (fst (Output l now s)) = []"
  by (simp_all add: Output_eq Let_def updateHeat_frame)

subsection \<open>The transforms\<close>

lemma parity_test: "((word_of_nat i :: 64 word) AND 1 = 0) = even i"
  by (simp add: and_one_eq flip: even_iff_mod_2_eq_zero)

lemma fire_loop_index:
  "fire_loop i b =
     concat (map (\<lambda>k. (if even (i + k) then red else yellow) @ [b ! k]) [0..<length b])"
proof (induction b arbitrary: i)
  case Nil
  then show ?case by simp
next
  case (Cons c cs)
  have "[0..<length (c # cs)] = 0 # map Suc [0..<length cs]"
    by (simp add: upt_conv_Cons map_Suc_upt del: upt_Suc)
  then show ?case
    by (simp add: Cons.IH parity_test comp_def del: upt_Suc)
qed

lemma count_list_fire_loop: "count_list (fire_loop i s) newline = count_list s newline"
  by (induction s arbitrary: i) (simp_all add: red_def yellow_def esc_def newline_def)

lemma count_newline_transforms:
  "count_list (heating s) newline = count_list s newline"
  "count_list (blazing s) newline = count_list s newline"
  "count_list (fire s) newline = count_list s newline"
  by (simp_all add: heating_def blazing_def fire_def count_list_fire_loop)
     (simp_all add: red_def yellow_def reset_def esc_def newline_def)

subsection \<open>Terminal mode along a run\<close>

lemma step_term_mode: "term_mode (step l x) = term_mode l"
  by (cases x)
     (simp_all add: SetOutput_def SetHeatingUp_def SetOnFire_def SetBlazing_def SetPrefix_def
        Output_fields)

lemma run_term_mode: "term_mode (run l ops) = term_mode l"
  unfolding run_def by (induction ops arbitrary: l) (simp_all add: step_term_mode)

subsection \<open>What reaches the destination\<close>

lemma Output_out:
  "out (fst (Output l now s)) =
     fst (write_to (out l)
       (banner_part (updateHeat l now) @ message_part (updateHeat l now) s @ newline_part s))"
  by (simp add: Output_eq Let_def)

lemma Output_recorded:
  "sink (out (fst (Output (SetOutput l (recorder f cs)) now s))) =
     cs @ [banner_part (updateHeat l now) @ message_part (updateHeat l now) s @ newline_part s]"
  by (simp add: Output_out SetOutput_def updateHeat_out_update write_to_def recorder_def)


lemma transformed_ends_in_reset:
  assumes "h \<in> {heating, fire, blazing}"
  shows "\<exists>body. h s = body @ reset"
  using assms by (auto simp add: heating_def fire_def blazing_def simp flip: append_assoc)

subsection \<open>The zero value along a run\<close>





subsection \<open>The heated logger\<close>

lemma heated_run:
  "run (New quiet []) heated_ops =
     (New quiet [])\<lparr>rateHeatingUp := 0, period := 1, state := heatingUp, heat := Some heating,
        buf := announce msgHeatingUp @ heating ''x'' @ [newline],
        out := recorder (\<lambda>p. None) [announce msgHeatingUp @ heating ''x'' @ [newline]]\<rparr>"
  by (simp add: run_def heated_ops_def SetHeatingUp_def Output_eq Let_def updateHeat_def
      banner_part_def message_part_def newline_part_def scen newline_def word_sless_alt)

lemma heated_parts:
  "term_mode (run (New quiet []) heated_ops)"
  "heat (updateHeat (run (New quiet []) heated_ops) (at_second 1)) = Some heating"
  "banner_part (updateHeat (run (New quiet []) heated_ops) (at_second 1)) = []"
  "message_part (updateHeat (run (New quiet []) heated_ops) (at_second 1)) s = heating s"
  unfolding heated_run
  by (simp_all add: updateHeat_def Let_def banner_part_def message_part_def Unix_def
      at_second_def New_def)

lemma fresh_parts:
  "heat (updateHeat (New quiet []) (at_second 1)) = None"
  "banner_part (updateHeat (New quiet []) (at_second 1)) = []"
  "message_part (updateHeat (New quiet []) (at_second 1)) s = s"
  by (simp_all add: banner_part_def message_part_def updateHeat_def Let_def Unix_def
      at_second_def New_def word_sless_alt)

section \<open>Construction\<close>

text \<open>
  C9: for every destination and prefix, \<open>New\<close> returns a logger in state \<open>cold\<close> with
  terminal mode enabled, a heating-up threshold of 10, an on-fire threshold of 20 and
  a blazing duration of 5.
\<close>

theorem New_defaults:
  "state (New w p) = cold \<and> term_mode (New w p) \<and> rateHeatingUp (New w p) = 10
   \<and> rateOnFire (New w p) = 20 \<and> periodsBlazing (New w p) = 5"
  by (simp add: New_def)

text \<open>
  C10: no exported method writes the terminal-mode flag. After any sequence of public
  calls on a logger made by \<open>New\<close> the flag is still set, and the next \<open>Output\<close>
  writes the message through the active transform whenever there is one.
\<close>

theorem term_mode_stays_enabled:
  "term_mode (run (New w p) ops)
   \<and> buf (fst (Output (run (New w p) ops) now s)) =
       banner_part (updateHeat (run (New w p) ops) now)
       @ (case heat (updateHeat (run (New w p) ops) now) of None \<Rightarrow> s | Some h \<Rightarrow> h s)
       @ newline_part s"
proof -
  have t: "term_mode (run (New w p) ops)"
    by (simp add: run_term_mode New_def)
  then have "term_mode (updateHeat (run (New w p) ops) now)"
    by (simp add: updateHeat_frame)
  then have "message_part (updateHeat (run (New w p) ops) now) s =
      (case heat (updateHeat (run (New w p) ops) now) of None \<Rightarrow> s | Some h \<Rightarrow> h s)"
    by (simp add: message_part_def split: option.splits)
  with t show ?thesis
    by (simp add: Output_buf)
qed

section \<open>The heat state machine\<close>

text \<open>
  C6: a call of \<open>updateHeat\<close> within the second that is being counted
  (\<open>Unix now = period l\<close>) adds one to the count and changes nothing else: state,
  transform, pending banner, both period fields and the thresholds stay as they are.
\<close>

theorem updateHeat_same_second:
  "Unix now = period l \<Longrightarrow> updateHeat l now = l\<lparr>rate := rate l + 1\<rparr>"
  by (simp add: updateHeat_def Let_def)

theorem updateHeat_same_second_witness:
  "Unix (at_second 106) = period hot_logger
   \<and> updateHeat hot_logger (at_second 106) = hot_logger\<lparr>rate := 26\<rparr>"
  using updateHeat_same_second [of "at_second 106" hot_logger]
  by (simp add: Unix_def at_second_def hot_logger_def New_def)

text \<open>
  C5: in state \<open>onFire\<close>, an evaluation in a new second whose rate (the count with the
  current line added, which is what the code compares) is below the on-fire threshold
  moves to \<open>coolingDown\<close> with the warming transform \<open>heating\<close>; and no call of
  \<open>updateHeat\<close> takes \<open>onFire\<close> to \<open>cold\<close>.
\<close>

theorem onFire_cools_to_coolingDown:
  "state l = onFire \<Longrightarrow>
     (Unix now \<noteq> period l \<and> rate l + 1 <s rateOnFire l \<longrightarrow>
        state (updateHeat l now) = coolingDown \<and> heat (updateHeat l now) = Some heating)
     \<and> state (updateHeat l now) \<noteq> cold"
  by (simp add: updateHeat_cool updateHeat_onFire_not_cold)

theorem onFire_cools_to_coolingDown_witness:
  "state (hot_logger\<lparr>rate := 3\<rparr>) = onFire
   \<and> Unix (at_second 107) \<noteq> period (hot_logger\<lparr>rate := 3\<rparr>)
   \<and> rate (hot_logger\<lparr>rate := 3\<rparr>) + 1 <s rateOnFire (hot_logger\<lparr>rate := 3\<rparr>)
   \<and> state (updateHeat (hot_logger\<lparr>rate := 3\<rparr>) (at_second 107)) = coolingDown
   \<and> heat (updateHeat (hot_logger\<lparr>rate := 3\<rparr>) (at_second 107)) = Some heating
   \<and> state (updateHeat (hot_logger\<lparr>rate := 3\<rparr>) (at_second 107)) \<noteq> cold"
  using onFire_cools_to_coolingDown [of "hot_logger\<lparr>rate := 3\<rparr>" "at_second 107"]
  by (simp add: Unix_def at_second_def hot_logger_def New_def)

text \<open>
  C1, as the code has it: nothing records that the blazing banner has been shown. Every
  \<open>Output\<close> that evaluates a new second in state \<open>onFire\<close> with the rate not below the
  on-fire threshold and \<open>firePeriod + periodsBlazing\<close> before that second writes the
  banner \<open>msgBlazing\<close> in front of the message, and leaves the state \<open>onFire\<close> and
  \<open>firePeriod\<close> and \<open>periodsBlazing\<close> as they were, so the same holds again at the next
  such second.
\<close>

theorem blazing_banner_each_evaluation:
  "state l = onFire \<Longrightarrow> Unix now \<noteq> period l \<Longrightarrow> \<not> rate l + 1 <s rateOnFire l \<Longrightarrow>
   firePeriod l + periodsBlazing l <s Unix now \<Longrightarrow>
     buf (fst (Output l now s)) =
       announce msgBlazing @ (if term_mode l then blazing s else s)
       @ (if s \<noteq> [] \<and> last s = newline then [] else [newline])
     \<and> state (fst (Output l now s)) = onFire
     \<and> firePeriod (fst (Output l now s)) = firePeriod l
     \<and> periodsBlazing (fst (Output l now s)) = periodsBlazing l
     \<and> heat (fst (Output l now s)) = Some blazing"
  by (simp add: Output_eq Let_def updateHeat_blazing newline_part_def message_part_def
      banner_part_def)

theorem blazing_banner_each_evaluation_witness:
  "state hot_logger = onFire \<and> Unix (at_second 107) \<noteq> period hot_logger
   \<and> \<not> rate hot_logger + 1 <s rateOnFire hot_logger
   \<and> firePeriod hot_logger + periodsBlazing hot_logger <s Unix (at_second 107)
   \<and> buf (fst (Output hot_logger (at_second 107) ''x'')) =
        announce msgBlazing @ blazing ''x'' @ [newline]
   \<and> state (fst (Output hot_logger (at_second 107) ''x'')) = onFire
   \<and> heat (fst (Output hot_logger (at_second 107) ''x'')) = Some blazing"
  using blazing_banner_each_evaluation [of hot_logger "at_second 107" "''x''"]
  by (simp add: scen newline_def)

text \<open>
  C1 as stated fails. In the run \<open>episode_ops\<close> the logger is on fire from second 3 on,
  with two lines a second against an on-fire threshold of 1 and a blazing duration of 1.
  The destination receives the blazing banner with the first line of second 5 and again
  with the first line of second 6.
\<close>

theorem blazing_banner_repeats:
  "sink (out (run (New quiet []) episode_ops)) =
     [''x'' @ [newline], ''x'' @ [newline],
      announce msgHeatingUp @ heating ''x'' @ [newline], heating ''x'' @ [newline],
      announce msgOnFire @ fire ''x'' @ [newline], fire ''x'' @ [newline],
      fire ''x'' @ [newline], fire ''x'' @ [newline],
      announce msgBlazing @ blazing ''x'' @ [newline], blazing ''x'' @ [newline],
      announce msgBlazing @ blazing ''x'' @ [newline]]
   \<and> state (run (New quiet []) episode_ops) = onFire"
  by (simp add: run_def episode_ops_def SetHeatingUp_def SetOnFire_def SetBlazing_def
      Output_eq Let_def updateHeat_def banner_part_def message_part_def newline_part_def scen
      newline_def word_sless_alt)

section \<open>The transforms\<close>

text \<open>
  C2, as the code has it: the two transforms are the other way round. Under the blazing
  condition \<open>updateHeat\<close> selects \<open>blazing\<close>, which wraps the whole message in one red
  escape and a reset; on entering \<open>onFire\<close> it selects \<open>fire\<close>, which puts red before
  every byte at an even index and yellow before every byte at an odd index, and ends
  with a reset.
\<close>

theorem transforms_selected:
  "(state l = onFire \<and> Unix now \<noteq> period l \<and> \<not> rate l + 1 <s rateOnFire l
      \<and> firePeriod l + periodsBlazing l <s Unix now \<longrightarrow>
        heat (updateHeat l now) = Some blazing)
   \<and> (state k = heatingUp \<and> Unix t \<noteq> period k \<and> rateOnFire k <s rate k + 1 \<longrightarrow>
        heat (updateHeat k t) = Some fire)
   \<and> blazing b = red @ b @ reset
   \<and> fire b = concat (map (\<lambda>i. (if even i then red else yellow) @ [b ! i]) [0..<length b]) @ reset"
  by (simp add: updateHeat_blazing updateHeat_enter_fire blazing_def fire_def fire_loop_index)

theorem transforms_selected_witness:
  "state hot_logger = onFire \<and> Unix (at_second 107) \<noteq> period hot_logger
   \<and> \<not> rate hot_logger + 1 <s rateOnFire hot_logger
   \<and> firePeriod hot_logger + periodsBlazing hot_logger <s Unix (at_second 107)
   \<and> heat (updateHeat hot_logger (at_second 107)) = Some blazing
   \<and> state warm_logger = heatingUp \<and> Unix (at_second 100) \<noteq> period warm_logger
   \<and> rateOnFire warm_logger <s rate warm_logger + 1
   \<and> heat (updateHeat warm_logger (at_second 100)) = Some fire
   \<and> blazing ''ab'' = red @ ''ab'' @ reset
   \<and> fire ''ab'' = red @ ''a'' @ yellow @ ''b'' @ reset"
  using transforms_selected [of hot_logger "at_second 107" warm_logger "at_second 100" "''ab''"]
  by (simp add: scen upt_rec)

text \<open>
  C2 as stated fails. For \<open>hot_logger\<close> the blazing condition holds at second 107 and
  the transform selected turns \<open>ab\<close> into one red escape, \<open>ab\<close> and a reset, with no
  second colour; \<open>warm_logger\<close> enters \<open>onFire\<close> at second 100 and the transform
  selected there colours \<open>a\<close> red and \<open>b\<close> yellow.
\<close>

theorem transforms_swapped:
  "state hot_logger = onFire \<and> \<not> rate hot_logger + 1 <s rateOnFire hot_logger
   \<and> firePeriod hot_logger + periodsBlazing hot_logger <s Unix (at_second 107)
   \<and> the (heat (updateHeat hot_logger (at_second 107))) ''ab'' = red @ ''ab'' @ reset
   \<and> the (heat (updateHeat hot_logger (at_second 107))) ''ab''
        \<noteq> red @ ''a'' @ yellow @ ''b'' @ reset
   \<and> state warm_logger = heatingUp
   \<and> state (updateHeat warm_logger (at_second 100)) = onFire
   \<and> the (heat (updateHeat warm_logger (at_second 100))) ''ab''
        = red @ ''a'' @ yellow @ ''b'' @ reset
   \<and> the (heat (updateHeat warm_logger (at_second 100))) ''ab'' \<noteq> red @ ''ab'' @ reset"
  by (simp add: scen updateHeat_def Let_def blazing_def fire_def red_def yellow_def reset_def
      esc_def)

section \<open>Output\<close>



text \<open>
  C4: the prefix is never written. \<open>Output\<close> on a logger with another prefix writes the
  same buffer to the destination, returns the same error and leaves every other field
  the same; the prefix only comes back from \<open>Prefix\<close>.
\<close>

theorem prefix_not_written:
  "Output (l\<lparr>prefix := p\<rparr>) now s = ((fst (Output l now s))\<lparr>prefix := p\<rparr>, snd (Output l now s))
   \<and> buf (fst (Output (l\<lparr>prefix := p\<rparr>) now s)) = buf (fst (Output l now s))
   \<and> out (fst (Output (l\<lparr>prefix := p\<rparr>) now s)) = out (fst (Output l now s))
   \<and> Prefix (l\<lparr>prefix := p\<rparr>) = p \<and> Prefix (SetPrefix l p) = p"
  by (simp add: Output_eq Let_def updateHeat_prefix_update updateHeat_frame Prefix_def
      SetPrefix_def)

text \<open>
  C7, as the code has it: \<open>Output\<close> appends nothing after a message that ends in a
  newline and exactly one newline, as the last byte written, after any other message,
  the empty one included; so it never adds a second newline. When no transform is
  applied the message part is the message itself and ends in the message's own newline.
  When one of the three transforms is applied the message part ends in the reset escape,
  with the message's newline before it, and holds as many newline bytes as the message.
\<close>

theorem Output_newline_appended:
  "sink (out (fst (Output (SetOutput l (recorder f cs)) now s))) =
     cs @ [banner_part (updateHeat l now) @ message_part (updateHeat l now) s
           @ (if s \<noteq> [] \<and> last s = newline then [] else [newline])]
   \<and> (heat (updateHeat l now) = None \<or> \<not> term_mode l \<longrightarrow>
        message_part (updateHeat l now) s = s)
   \<and> (term_mode l \<and> heat (updateHeat l now) \<in> {Some heating, Some fire, Some blazing} \<longrightarrow>
        message_part (updateHeat l now) s = the (heat (updateHeat l now)) s
        \<and> (\<exists>body. message_part (updateHeat l now) s = body @ reset)
        \<and> count_list (message_part (updateHeat l now) s) newline = count_list s newline)"
proof -
  have c1: "sink (out (fst (Output (SetOutput l (recorder f cs)) now s))) =
     cs @ [banner_part (updateHeat l now) @ message_part (updateHeat l now) s
           @ (if s \<noteq> [] \<and> last s = newline then [] else [newline])]"
    by (simp only: Output_recorded newline_part_def)
  have c2: "heat (updateHeat l now) = None \<or> \<not> term_mode l \<longrightarrow>
        message_part (updateHeat l now) s = s"
    by (auto simp add: message_part_def updateHeat_frame split: option.splits)
  have m: "message_part (updateHeat l now) s = the (heat (updateHeat l now)) s"
    if "term_mode l" "heat (updateHeat l now) \<in> {Some heating, Some fire, Some blazing}"
    using that by (auto simp add: message_part_def updateHeat_frame)
  have r: "\<exists>body. the (heat (updateHeat l now)) s = body @ reset"
    if "heat (updateHeat l now) \<in> {Some heating, Some fire, Some blazing}"
    using that transformed_ends_in_reset [of "the (heat (updateHeat l now))" s] by auto
  have n: "count_list (the (heat (updateHeat l now)) s) newline = count_list s newline"
    if "heat (updateHeat l now) \<in> {Some heating, Some fire, Some blazing}"
    using that by (auto simp add: count_newline_transforms)
  have c3: "term_mode l \<and> heat (updateHeat l now) \<in> {Some heating, Some fire, Some blazing} \<longrightarrow>
        message_part (updateHeat l now) s = the (heat (updateHeat l now)) s
        \<and> (\<exists>body. message_part (updateHeat l now) s = body @ reset)
        \<and> count_list (message_part (updateHeat l now) s) newline = count_list s newline"
    using m r n by simp
  from c1 c2 c3 show ?thesis by (intro conjI)
qed

theorem Output_newline_appended_witness:
  "term_mode (run (New quiet []) heated_ops)
   \<and> heat (updateHeat (run (New quiet []) heated_ops) (at_second 1))
        \<in> {Some heating, Some fire, Some blazing}
   \<and> sink (out (fst (Output (SetOutput (run (New quiet []) heated_ops) (recorder (\<lambda>p. None) []))
        (at_second 1) (''y'' @ [newline])))) = [yellow @ ''y'' @ [newline] @ reset]
   \<and> count_list (message_part (updateHeat (run (New quiet []) heated_ops) (at_second 1))
        (''y'' @ [newline])) newline = 1
   \<and> sink (out (fst (Output (SetOutput (run (New quiet []) heated_ops) (recorder (\<lambda>p. None) []))
        (at_second 1) ''y''))) = [yellow @ ''y'' @ reset @ [newline]]
   \<and> heat (updateHeat (New quiet []) (at_second 1)) = None
   \<and> sink (out (fst (Output (SetOutput (New quiet []) (recorder (\<lambda>p. None) []))
        (at_second 1) (''y'' @ [newline])))) = [''y'' @ [newline]]"
proof -
  note a = Output_newline_appended
      [of "run (New quiet []) heated_ops" "\<lambda>p. None" "[]" "at_second 1" "''y'' @ [newline]"]
  note b = Output_newline_appended
      [of "run (New quiet []) heated_ops" "\<lambda>p. None" "[]" "at_second 1" "''y''"]
  note c = Output_newline_appended
      [of "New quiet []" "\<lambda>p. None" "[]" "at_second 1" "''y'' @ [newline]"]
  have h: "heat (updateHeat (run (New quiet []) heated_ops) (at_second 1))
        \<in> {Some heating, Some fire, Some blazing}"
    by (simp add: heated_parts)
  note a3 = a [THEN conjunct2, THEN conjunct2, rule_format, OF conjI [OF heated_parts(1) h]]
  note n = a3 [THEN conjunct2, THEN conjunct2]
  have s1: "sink (out (fst (Output (SetOutput (run (New quiet []) heated_ops)
        (recorder (\<lambda>p. None) [])) (at_second 1) (''y'' @ [newline])))) =
        [yellow @ ''y'' @ [newline] @ reset]"
    unfolding a [THEN conjunct1] heated_parts by (simp add: heating_def)
  have s2: "sink (out (fst (Output (SetOutput (run (New quiet []) heated_ops)
        (recorder (\<lambda>p. None) [])) (at_second 1) ''y''))) = [yellow @ ''y'' @ reset @ [newline]]"
    unfolding b [THEN conjunct1] heated_parts by (simp add: heating_def newline_def)
  have s3: "sink (out (fst (Output (SetOutput (New quiet []) (recorder (\<lambda>p. None) []))
        (at_second 1) (''y'' @ [newline])))) = [''y'' @ [newline]]"
    unfolding c [THEN conjunct1] fresh_parts by simp
  have n1: "count_list (message_part (updateHeat (run (New quiet []) heated_ops)
        (at_second 1)) (''y'' @ [newline])) newline = 1"
    unfolding n by (simp add: newline_def)
  from heated_parts(1) h s1 n1 s2 fresh_parts(1) s3 show ?thesis
    by (intro conjI)
qed

text \<open>
  C7 as stated fails. After \<open>heated_ops\<close>, exported calls only, the warming transform is
  active; the next line ends in a newline, and what the destination receives for it is
  the yellow escape, the message with its newline, and the reset escape: its last byte
  is the \<open>m\<close> of the reset, not a newline.
\<close>

theorem newline_before_reset:
  "sink (out (run (New quiet []) (heated_ops @ [OpOutput (at_second 1) (''y'' @ [newline])]))) =
     [announce msgHeatingUp @ heating ''x'' @ [newline],
      yellow @ ''y'' @ [newline] @ reset]
   \<and> last (last (sink (out (run (New quiet [])
        (heated_ops @ [OpOutput (at_second 1) (''y'' @ [newline])]))))) = CHR ''m''
   \<and> last (last (sink (out (run (New quiet [])
        (heated_ops @ [OpOutput (at_second 1) (''y'' @ [newline])]))))) \<noteq> newline"
  by (simp add: run_def heated_ops_def SetHeatingUp_def Output_eq Let_def updateHeat_def
      banner_part_def message_part_def newline_part_def scen newline_def word_sless_alt
      heating_def reset_def)

text \<open>
  C8: \<open>Output\<close> hands its buffer to the destination's \<open>Write\<close> once and returns the
  error of that call. The logger it leaves differs between two destinations, one that
  fails and one that does not, in the destination only. On a recording destination the
  call adds exactly one entry, the buffer, whether \<open>f\<close> reports an error or not.
\<close>

theorem Output_returns_write_error:
  "out (fst (Output l now s)) = fst (write_to (out l) (buf (fst (Output l now s))))
   \<and> snd (Output l now s) = snd (snd (write_to (out l) (buf (fst (Output l now s)))))
   \<and> (fst (Output (l\<lparr>out := w1\<rparr>) now s))\<lparr>out := w\<rparr> = (fst (Output (l\<lparr>out := w2\<rparr>) now s))\<lparr>out := w\<rparr>
   \<and> sink (out (fst (Output (r\<lparr>out := recorder f cs\<rparr>) now s))) =
        cs @ [buf (fst (Output (r\<lparr>out := recorder f cs\<rparr>) now s))]
   \<and> snd (Output (r\<lparr>out := recorder f cs\<rparr>) now s) =
        f (buf (fst (Output (r\<lparr>out := recorder f cs\<rparr>) now s)))"
  by (simp add: Output_eq Let_def updateHeat_out_update updateHeat_frame
      write_to_def recorder_def split: prod.splits)

end
